theory Spec2Isabelle
  imports Complex_Main
begin

section \<open>Python values used by the adapter\<close>

text \<open>
  The adapter (\<^verbatim>\<open>src/nonebot/adapters/ding/adapter.py\<close>) is Python. Its keyword
  arguments, headers and bodies are optional strings; \<^verbatim>\<open>if x:\<close> on such a value is
  false for \<^verbatim>\<open>None\<close> and for the empty string.
\<close>

definition truthy :: "string option \<Rightarrow> bool" where
  "truthy x = (case x of None \<Rightarrow> False | Some s \<Rightarrow> s \<noteq> [])"

text \<open>\<^verbatim>\<open>str(x)\<close> of an optional string: \<^verbatim>\<open>str(None)\<close> is the text \<^verbatim>\<open>None\<close>.\<close>

definition py_str :: "string option \<Rightarrow> string" where
  "py_str x = (case x of None \<Rightarrow> ''None'' | Some s \<Rightarrow> s)"

text \<open>\<^verbatim>\<open>int(x)\<close> of a number truncates towards zero.\<close>

definition py_int :: "rat \<Rightarrow> int" where
  "py_int x = (if 0 \<le> x then \<lfloor>x\<rfloor> else \<lceil>x\<rceil>)"

text \<open>\<^verbatim>\<open>round(x)\<close> with one argument rounds to the nearest integer, a tie to the even one.\<close>

definition py_round :: "rat \<Rightarrow> int" where
  "py_round x =
     (let f = \<lfloor>x\<rfloor>; d = x - of_int f
      in if d < 1 / 2 then f
         else if 1 / 2 < d then f + 1
         else if even f then f else f + 1)"

text \<open>\<^verbatim>\<open>str(n)\<close> of an integer: its decimal digits, with a minus sign when negative.\<close>

definition digit_char :: "nat \<Rightarrow> char" where
  "digit_char d = char_of (48 + d)"

function str_digits :: "int \<Rightarrow> string" where
  "str_digits n =
     (if n < 10 then [digit_char (nat n)]
      else str_digits (n div 10) @ [digit_char (nat (n mod 10))])"
  by pat_completeness auto
termination
  by (relation "measure nat") auto

declare str_digits.simps [simp del]

definition str_int :: "int \<Rightarrow> string" where
  "str_int i = (if i < 0 then CHR ''-'' # str_digits (- i) else str_digits i)"

subsection \<open>Floating point\<close>

text \<open>
  \<^verbatim>\<open>time.time() * 1000\<close> and \<^verbatim>\<open>sessionWebhookExpiredTime / 1000\<close> are computed in binary64:
  the result is the exact product or quotient rounded to the nearest number with a 53-bit
  significand, a tie going to the even significand. \<open>bit_length\<close> is \<^verbatim>\<open>int.bit_length\<close>,
  \<open>ilog2 x\<close> the exponent of the power of two at or below a positive \<open>x\<close>. The exponent
  range is not bounded here; every clock reading and expiry the adapter can meet lies far
  inside the range of binary64.
\<close>

function bit_length :: "int \<Rightarrow> nat" where
  "bit_length n = (if n \<le> 0 then 0 else Suc (bit_length (n div 2)))"
  by pat_completeness auto
termination
  by (relation "measure nat") auto

declare bit_length.simps [simp del]

definition ilog2 :: "rat \<Rightarrow> int" where
  "ilog2 x =
     (case quotient_of x of
        (p, q) \<Rightarrow>
          (let d = int (bit_length p) - int (bit_length q)
           in if power_int 2 d \<le> x then d else d - 1))"

definition round_to_double :: "rat \<Rightarrow> rat" where
  "round_to_double x =
     (if x = 0 then 0
      else (let e = ilog2 \<bar>x\<bar> - 52
            in of_int (py_round (x / power_int 2 e)) * power_int 2 e))"

subsection \<open>Percent-encoding (\<^verbatim>\<open>urllib.parse\<close>)\<close>

text \<open>
  \<^verbatim>\<open>quote_plus\<close> is applied to the bytes returned by \<^verbatim>\<open>calc_hmac_base64\<close>. With the
  default \<^verbatim>\<open>safe=''\<close> the library keeps the bytes of \<^verbatim>\<open>_ALWAYS_SAFE\<close> (letters, digits
  and \<^verbatim>\<open>_.-~\<close>) and writes every other byte as \<^verbatim>\<open>%XX\<close> in upper-case hexadecimal.
  When the input holds a space, the space is added to the safe set and every space of the
  quoted text is then replaced by \<^verbatim>\<open>+\<close>.
\<close>

definition always_safe :: "char \<Rightarrow> bool" where
  "always_safe c =
     (let n = (of_char c :: nat)
      in (65 \<le> n \<and> n \<le> 90) \<or> (97 \<le> n \<and> n \<le> 122) \<or> (48 \<le> n \<and> n \<le> 57)
         \<or> c = CHR ''_'' \<or> c = CHR ''.'' \<or> c = CHR ''-'' \<or> c = CHR ''~'')"

definition hex_digit :: "nat \<Rightarrow> char" where
  "hex_digit d = (if d < 10 then char_of (48 + d) else char_of (55 + d))"

definition quoter :: "string \<Rightarrow> char \<Rightarrow> string" where
  "quoter safe c =
     (if always_safe c \<or> c \<in> set safe then [c]
      else [CHR ''%'', hex_digit ((of_char c :: nat) div 16), hex_digit ((of_char c :: nat) mod 16)])"

definition quote_from_bytes :: "string \<Rightarrow> string \<Rightarrow> string" where
  "quote_from_bytes bs safe = concat (map (quoter safe) bs)"

definition replace_char :: "char \<Rightarrow> char \<Rightarrow> string \<Rightarrow> string" where
  "replace_char a b s = map (\<lambda>c. if c = a then b else c) s"

definition quote_plus :: "string \<Rightarrow> string" where
  "quote_plus bs =
     (if CHR '' '' \<notin> set bs then quote_from_bytes bs []
      else replace_char (CHR '' '') (CHR ''+'') (quote_from_bytes bs [CHR '' '']))"

text \<open>
  Decoding, as \<^verbatim>\<open>unquote_plus\<close> does on the byte level: every \<^verbatim>\<open>+\<close> becomes a space,
  then every \<^verbatim>\<open>%\<close> followed by two hexadecimal digits (of either case) becomes the byte
  they spell; any other \<^verbatim>\<open>%\<close> stays as it is.
\<close>

definition hex_value :: "char \<Rightarrow> nat option" where
  "hex_value c =
     (let n = (of_char c :: nat)
      in if 48 \<le> n \<and> n \<le> 57 then Some (n - 48)
         else if 65 \<le> n \<and> n \<le> 70 then Some (n - 55)
         else if 97 \<le> n \<and> n \<le> 102 then Some (n - 87)
         else None)"

fun unquote_to_bytes :: "string \<Rightarrow> string" where
  "unquote_to_bytes (c # h1 # h2 # rest) =
     (if c = CHR ''%'' then
        (case (hex_value h1, hex_value h2) of
           (Some a, Some b) \<Rightarrow> char_of (16 * a + b) # unquote_to_bytes rest
         | _ \<Rightarrow> c # unquote_to_bytes (h1 # h2 # rest))
      else c # unquote_to_bytes (h1 # h2 # rest))"
| "unquote_to_bytes cs = cs"

definition unquote_plus :: "string \<Rightarrow> string" where
  "unquote_plus s = unquote_to_bytes (replace_char (CHR ''+'') (CHR '' '') s)"

section \<open>Data model\<close>

text \<open>
  A decoded JSON value, as \<^verbatim>\<open>json.loads\<close> returns it. An object is a Python \<^verbatim>\<open>dict\<close>;
  it is kept as the list of its items and read with \<open>map_of\<close>. Numbers written with a
  fraction or an exponent are floats; only the finite ones are modelled.
\<close>

datatype json =
    JNull
  | JBool bool
  | JInt int
  | JFloat rat
  | JString string
  | JArray "json list"
  | JObject "(string \<times> json) list"

text \<open>
  The exceptions of \<^verbatim>\<open>exception.py\<close> and the built-in ones the two methods can raise.
  \<open>NetworkError msg cause\<close> keeps the \<^verbatim>\<open>__cause__\<close> set by \<^verbatim>\<open>raise ... from e\<close>.
  All of them are ordinary exceptions (subclasses of \<^verbatim>\<open>Exception\<close>), as the
  framework's adapter exceptions are.
\<close>

datatype exn =
    SessionExpired
  | ApiNotAvailable
  | ActionFailed "json option" "json option"
  | NetworkError string "exn option"
  | ValueError string
  | KeyError string
  | TypeError string
  | OtherError string

text \<open>
  Modelled from the spec: \<^verbatim>\<open>event.py\<close> is not among the sources. An event is one of two
  classes and carries, among its common fields, the session-reply address and its expiry
  in epoch milliseconds.
\<close>

datatype EventClass = PrivateMessageEvent | GroupMessageEvent

record Event =
  event_class :: EventClass
  conversationId :: string
  senderId :: string
  sessionWebhook :: string
  sessionWebhookExpiredTime :: int

text \<open>
  Modelled from the spec: \<^verbatim>\<open>message.py\<close> is not among the sources. A message is a
  sequence of segments (a Python list, so the empty message is falsy).
\<close>

datatype MessageSegment = MessageSegment string "(string \<times> json) list"

type_synonym Message = "MessageSegment list"

text \<open>The driver's request and response objects, with the fields the adapter uses.\<close>

record Request =
  http_method :: string
  url :: string
  headers :: "string \<rightharpoonup> string"
  params :: "(string \<times> string) list"
  timeout :: "rat option"
  content :: "string option"

record Response =
  status_code :: int
  response_content :: "string option"

text \<open>
  A \<^verbatim>\<open>Bot\<close> object (\<^verbatim>\<open>bot.py\<close>): its \<^verbatim>\<open>self_id\<close> is the value it was constructed with;
  \<open>obj_id\<close> is the identity of the instance, so that two constructions give two bots.
\<close>

record Bot =
  self_id :: json
  obj_id :: nat

record Config =
  ding_webhook_urlpath :: "string option"
  secret :: string

text \<open>
  What a call leaves behind, in order: a line written through \<^verbatim>\<open>log\<close> (level, text,
  exception), a bot registered with the host, an event handed to \<^verbatim>\<open>asyncio.create_task\<close>,
  a line written through \<^verbatim>\<open>logger.error\<close> for a failed hand-over, and an HTTP request
  given to the driver.
\<close>

datatype effect =
    Log string string "exn option"
  | BotConnect Bot
  | CreateTask Bot Event
  | LoggerError json exn
  | HttpRequest Request

text \<open>
  The code the adapter calls but does not contain, taken as parameters:
  \<^verbatim>\<open>calc_hmac_base64\<close> of \<^verbatim>\<open>utils.py\<close> (timestamp, secret; it returns the base64 bytes
  of the HMAC, which are ASCII, so \<^verbatim>\<open>.decode('utf-8')\<close> leaves them as they are), the
  two clocks, the driver (\<^verbatim>\<open>self.request\<close>, \<^verbatim>\<open>self.config.api_timeout\<close>), the JSON
  library, the serialisation of a message (\<^verbatim>\<open>json.dumps(message._produce())\<close>),
  \<^verbatim>\<open>escape_tag\<close>, the comparison of a payload's \<^verbatim>\<open>conversationType\<close> with the two
  members of the \<^verbatim>\<open>ConversationType\<close> enumeration, the two \<^verbatim>\<open>parse_obj\<close> validators
  and \<^verbatim>\<open>asyncio.create_task\<close> (\<open>Some e\<close> when it raises \<open>e\<close>).
\<close>

record host =
  calc_hmac_base64 :: "string \<Rightarrow> string \<Rightarrow> string"
  time_time :: rat
  datetime_now_timestamp :: rat
  api_timeout :: "rat option"
  send_request :: "Request \<Rightarrow> exn + Response"
  json_loads :: "string \<Rightarrow> exn + json"
  json_dumps_produce :: "Message \<Rightarrow> string"
  escape_tag :: "string \<Rightarrow> string"
  is_private :: "json \<Rightarrow> bool"
  is_group :: "json \<Rightarrow> bool"
  parse_private :: "json \<Rightarrow> exn + Event"
  parse_group :: "json \<Rightarrow> exn + Event"
  create_task :: "Bot \<Rightarrow> Event \<Rightarrow> exn option"

section \<open>Outbound: \<^verbatim>\<open>Adapter._call_api\<close>\<close>

text \<open>The keyword arguments \<^verbatim>\<open>**data\<close>, each read with \<^verbatim>\<open>data.get\<close>.\<close>

record call_data =
  kw_webhook :: "string option"
  kw_secret :: "string option"
  kw_event :: "Event option"
  kw_message :: "Message option"

text \<open>\<^verbatim>\<open>result.get("errcode") != 0\<close>: Python equates \<^verbatim>\<open>0\<close>, \<^verbatim>\<open>0.0\<close> and \<^verbatim>\<open>False\<close>.\<close>

fun ne_zero :: "json option \<Rightarrow> bool" where
  "ne_zero (Some (JInt n)) = (n \<noteq> 0)"
| "ne_zero (Some (JFloat r)) = (r \<noteq> 0)"
| "ne_zero (Some (JBool b)) = b"
| "ne_zero _ = True"

text \<open>
  Lines 144 to 156, the body of the \<^verbatim>\<open>try\<close>: send the request and read the response.
  \<open>Inl e\<close> is the exception \<open>e\<close> raised inside the \<^verbatim>\<open>try\<close>.
\<close>

definition try_body :: "host \<Rightarrow> Request \<Rightarrow> exn + json" where
  "try_body h request =
     (case send_request h request of
        Inl e \<Rightarrow> Inl e
      | Inr response \<Rightarrow>
          (let unexpected = NetworkError
                 (''HTTP request received unexpected status code: '' @ str_int (status_code response))
                 None
           in if 200 \<le> status_code response \<and> status_code response < 300 then
                (if \<not> truthy (response_content response) then Inl (ValueError ''Empty response'')
                 else
                   (case json_loads h (py_str (response_content response)) of
                      Inl e \<Rightarrow> Inl e
                    | Inr result \<Rightarrow>
                        (case result of
                           JObject items \<Rightarrow>
                             (if ne_zero (map_of items ''errcode'')
                              then Inl (ActionFailed (map_of items ''errcode'') (map_of items ''errmsg''))
                              else Inr result)
                         | _ \<Rightarrow> Inl unexpected)))
              else Inl unexpected))"

text \<open>
  Lines 101 to 158. The result is the value returned (\<open>Inr\<close>) or the exception the
  caller sees (\<open>Inl\<close>), with the effects of the call in order. The product of line 111 and
  the quotient of line 122 are floating-point operations (\<open>round_to_double\<close> of the exact
  result).
\<close>

definition call_api :: "host \<Rightarrow> Bot \<Rightarrow> string \<Rightarrow> call_data \<Rightarrow> (exn + json) \<times> effect list" where
  "call_api h b api data =
     (let debug = Log ''DEBUG'' (''Calling API <y>'' @ api @ ''</y>'') None;
          target =
            (if truthy (kw_webhook data) then
               (if truthy (kw_secret data) then
                  (let timestamp = str_int (py_round (round_to_double (time_time h * 1000)));
                       hmac_code_base64 = calc_hmac_base64 h timestamp (py_str (kw_secret data));
                       sign = quote_plus hmac_code_base64
                   in Inr (py_str (kw_webhook data), [(''timestamp'', timestamp), (''sign'', sign)]))
                else Inr (py_str (kw_webhook data), []))
             else
               (case kw_event data of
                  Some event \<Rightarrow>
                    (if py_int (datetime_now_timestamp h)
                          > py_int (round_to_double (of_int (sessionWebhookExpiredTime event) / 1000))
                     then Inl SessionExpired
                     else Inr (sessionWebhook event, []))
                | None \<Rightarrow> Inl ApiNotAvailable))
      in case target of
           Inl e \<Rightarrow> (Inl e, [debug])
         | Inr (webhook, params') \<Rightarrow>
             (case kw_message data of
                None \<Rightarrow> (Inl (ValueError ''Message not found''), [debug])
              | Some message \<Rightarrow>
                  (if message = [] then (Inl (ValueError ''Message not found''), [debug])
                   else
                     (let request =
                            \<lparr>http_method = ''POST'', url = webhook,
                             headers = [''Content-Type'' \<mapsto> ''application/json''],
                             params = params', timeout = api_timeout h,
                             content = Some (json_dumps_produce h message)\<rparr>
                      in (case try_body h request of
                            Inl e \<Rightarrow> Inl (NetworkError ''HTTP request failed'' (Some e))
                          | Inr result \<Rightarrow> Inr result,
                          [debug, HttpRequest request])))))"

text \<open>The HTTP requests among the effects of a call.\<close>

fun http_requests :: "effect list \<Rightarrow> Request list" where
  "http_requests [] = []"
| "http_requests (HttpRequest r # es) = r # http_requests es"
| "http_requests (_ # es) = http_requests es"

section \<open>Inbound: \<^verbatim>\<open>Adapter._check_signature\<close> and \<^verbatim>\<open>Adapter._handle_http\<close>\<close>

text \<open>
  Lines 49 to 64. \<^verbatim>\<open>headers.get\<close> gives \<^verbatim>\<open>None\<close> for a header that is absent, and
  \<^verbatim>\<open>str(timestamp)\<close> is then the text \<^verbatim>\<open>None\<close>. The result is paired with the warning
  logged on a mismatch.
\<close>

definition check_signature :: "host \<Rightarrow> Config \<Rightarrow> Request \<Rightarrow> bool \<times> effect list" where
  "check_signature h cfg request =
     (let timestamp = headers request ''timestamp'';
          sign = headers request ''sign'';
          sign_base64 = calc_hmac_base64 h (py_str timestamp) (secret cfg)
      in if sign \<noteq> Some sign_base64
         then (False, [Log ''WARNING'' ''Signature Header is invalid'' None])
         else (True, []))"

text \<open>\<^verbatim>\<open>json_data[key]\<close> with a string key: only a \<^verbatim>\<open>dict\<close> can answer.\<close>

fun getitem :: "json \<Rightarrow> string \<Rightarrow> exn + json" where
  "getitem (JObject items) k = (case map_of items k of Some v \<Rightarrow> Inr v | None \<Rightarrow> Inl (KeyError k))"
| "getitem (JString s) k = Inl (TypeError ''string indices must be integers'')"
| "getitem (JArray xs) k = Inl (TypeError ''list indices must be integers or slices, not str'')"
| "getitem _ k = Inl (TypeError ''object is not subscriptable'')"

text \<open>
  The registry \<^verbatim>\<open>self.bots\<close> is a \<^verbatim>\<open>dict\<close> keyed by the value of \<^verbatim>\<open>chatbotCorpId\<close>.
  Python's dictionaries treat \<^verbatim>\<open>1\<close>, \<^verbatim>\<open>1.0\<close> and \<^verbatim>\<open>True\<close> as one key, and refuse a list
  or a \<^verbatim>\<open>dict\<close> as a key.
\<close>

datatype dict_key = KNone | KNum rat | KStr string

fun hash_key :: "json \<Rightarrow> exn + dict_key" where
  "hash_key JNull = Inr KNone"
| "hash_key (JBool b) = Inr (KNum (if b then 1 else 0))"
| "hash_key (JInt n) = Inr (KNum (of_int n))"
| "hash_key (JFloat r) = Inr (KNum r)"
| "hash_key (JString s) = Inr (KStr s)"
| "hash_key (JArray xs) = Inl (TypeError ''unhashable type: list'')"
| "hash_key (JObject items) = Inl (TypeError ''unhashable type: dict'')"

text \<open>
  The adapter's mutable state: the registry and the number of \<^verbatim>\<open>Bot\<close> objects
  constructed so far, which names the next instance.
\<close>

record Adapter =
  bots :: "dict_key \<rightharpoonup> Bot"
  next_obj_id :: nat

text \<open>
  Lines 72 to 76: look the bot up, or construct and connect it. \<^verbatim>\<open>bot_connect\<close> is the
  host's; it stores the bot in \<^verbatim>\<open>self.bots\<close> under its \<^verbatim>\<open>self_id\<close>. \<^verbatim>\<open>escape_tag\<close>
  works on a string and raises \<^verbatim>\<open>TypeError\<close> on anything else, after the bot has
  been connected.
\<close>

definition get_bot :: "host \<Rightarrow> Adapter \<Rightarrow> json \<Rightarrow> (exn + Bot) \<times> Adapter \<times> effect list" where
  "get_bot h st bot_id =
     (case hash_key bot_id of
        Inl e \<Rightarrow> (Inl e, st, [])
      | Inr k \<Rightarrow>
          (case bots st k of
             Some b \<Rightarrow> (Inr b, st, [])
           | None \<Rightarrow>
               (let b = \<lparr>self_id = bot_id, obj_id = next_obj_id st\<rparr>;
                    st' = st\<lparr>bots := (bots st)(k \<mapsto> b), next_obj_id := Suc (next_obj_id st)\<rparr>
                in case bot_id of
                     JString s \<Rightarrow>
                       (Inr b, st',
                        [BotConnect b,
                         Log ''INFO'' (''<y>Bot '' @ escape_tag h s @ ''</y> connected'') None])
                   | _ \<Rightarrow>
                       (Inl (TypeError ''expected string or bytes-like object''), st',
                        [BotConnect b]))))"

text \<open>Lines 79 to 85, the body of the first \<^verbatim>\<open>try\<close>: choose the event class.\<close>

definition classify :: "host \<Rightarrow> json \<Rightarrow> exn + Event" where
  "classify h json_data =
     (case getitem json_data ''conversationType'' of
        Inl e \<Rightarrow> Inl e
      | Inr conversation_type \<Rightarrow>
          (if is_private h conversation_type then parse_private h json_data
           else if is_group h conversation_type then parse_group h json_data
           else Inl (ValueError ''Unsupported conversation type'')))"

text \<open>
  Lines 66 to 98. The outcome is the exception that leaves the handler (\<open>Inl\<close>) or what
  it returns: \<open>Inr None\<close> for the bare \<^verbatim>\<open>return\<close> of line 88, \<open>Inr (Some r)\<close> for a
  \<^verbatim>\<open>Response\<close>. The handler has no \<^verbatim>\<open>await\<close>, so it runs from start to end on the
  state it is given.
\<close>

definition handle_http ::
  "host \<Rightarrow> Config \<Rightarrow> Adapter \<Rightarrow> Request \<Rightarrow> (exn + Response option) \<times> Adapter \<times> effect list" where
  "handle_http h cfg st request =
     (case check_signature h cfg request of
        (False, warned) \<Rightarrow>
          (Inr (Some \<lparr>status_code = 401, response_content = None\<rparr>), st, warned)
      | (True, _) \<Rightarrow>
          (if truthy (content request) then
             (case json_loads h (py_str (content request)) of
                Inl e \<Rightarrow> (Inl e, st, [])
              | Inr json_data \<Rightarrow>
                  (case getitem json_data ''chatbotCorpId'' of
                     Inl e \<Rightarrow> (Inl e, st, [])
                   | Inr bot_id \<Rightarrow>
                       (case get_bot h st bot_id of
                          (Inl e, st', eff) \<Rightarrow> (Inl e, st', eff)
                        | (Inr b, st', eff) \<Rightarrow>
                            (case classify h json_data of
                               Inl e \<Rightarrow>
                                 (Inr None, st',
                                  eff @ [Log ''ERROR'' ''Event Parser Error'' (Some e)])
                             | Inr event \<Rightarrow>
                                 (case create_task h b event of
                                    None \<Rightarrow>
                                      (Inr (Some \<lparr>status_code = 204, response_content = None\<rparr>),
                                       st', eff @ [CreateTask b event])
                                  | Some e \<Rightarrow>
                                      (Inr (Some \<lparr>status_code = 204, response_content = None\<rparr>),
                                       st', eff @ [LoggerError json_data e]))))))
           else
             (Inr (Some \<lparr>status_code = 400, response_content = Some ''Invalid request body''\<rparr>),
              st, [])))"

text \<open>A sequence of requests, handled one after the other.\<close>

fun handle_all :: "host \<Rightarrow> Config \<Rightarrow> Adapter \<Rightarrow> Request list \<Rightarrow> Adapter \<times> effect list" where
  "handle_all h cfg st [] = (st, [])"
| "handle_all h cfg st (r # rs) =
     (case handle_http h cfg st r of
        (outcome, st1, e1) \<Rightarrow>
          (case handle_all h cfg st1 rs of (st2, e2) \<Rightarrow> (st2, e1 @ e2)))"

section \<open>Notions used to state the properties\<close>

text \<open>The value of a decimal numeral, to read back what \<open>str_int\<close> writes.\<close>

definition decimal_value :: "string \<Rightarrow> int" where
  "decimal_value s = foldl (\<lambda>a c. 10 * a + (int (of_char c) - 48)) 0 s"

text \<open>What \<open>quote_plus\<close> writes for one byte.\<close>

definition plus_quoter :: "char \<Rightarrow> string" where
  "plus_quoter c = (if c = CHR '' '' then ''+'' else quoter [] c)"

text \<open>The bots connected and the hand-overs made among the effects of a run.\<close>

fun connects :: "effect list \<Rightarrow> Bot list" where
  "connects [] = []"
| "connects (BotConnect b # es) = b # connects es"
| "connects (_ # es) = connects es"

fun created_tasks :: "effect list \<Rightarrow> (Bot \<times> Event) list" where
  "created_tasks [] = []"
| "created_tasks (CreateTask b e # es) = (b, e) # created_tasks es"
| "created_tasks (_ # es) = created_tasks es"

text \<open>The registry key a bot was constructed for.\<close>

definition key_of :: "Bot \<Rightarrow> dict_key option" where
  "key_of b = (case hash_key (self_id b) of Inl e \<Rightarrow> None | Inr k \<Rightarrow> Some k)"

text \<open>
  A request shows the identity \<open>k\<close> when it is authentic, has a body, the body decodes to
  JSON, and the value under \<^verbatim>\<open>chatbotCorpId\<close> is the registry key \<open>k\<close>.
\<close>

definition observes :: "host \<Rightarrow> Config \<Rightarrow> Request \<Rightarrow> dict_key \<Rightarrow> bool" where
  "observes h cfg request k =
     (fst (check_signature h cfg request) \<and> truthy (content request) \<and>
      (case json_loads h (py_str (content request)) of
         Inl e \<Rightarrow> False
       | Inr json_data \<Rightarrow>
           (case getitem json_data ''chatbotCorpId'' of
              Inl e \<Rightarrow> False
            | Inr bot_id \<Rightarrow> hash_key bot_id = Inr k)))"

subsection \<open>Concrete inputs\<close>

text \<open>
  A host to run the adapter on: \<open>example_calc\<close> stands in for the HMAC (its output has the
  characters \<^verbatim>\<open>+\<close>, \<^verbatim>\<open>/\<close> and \<^verbatim>\<open>=\<close> of base64), the driver answers every request with
  status 200 and the given body, and the JSON decoder knows the bodies used below.
\<close>

definition example_calc :: "string \<Rightarrow> string \<Rightarrow> string" where
  "example_calc timestamp key = ''mac+'' @ key @ ''/'' @ timestamp @ ''==''"

definition example_json_loads :: "string \<Rightarrow> exn + json" where
  "example_json_loads s =
     (if s = ''{\"errcode\":0,\"errmsg\":\"ok\"}''
        then Inr (JObject [(''errcode'', JInt 0), (''errmsg'', JString ''ok'')])
      else if s = ''{\"errcode\":1,\"errmsg\":\"bad\"}''
        then Inr (JObject [(''errcode'', JInt 1), (''errmsg'', JString ''bad'')])
      else if s = ''{\"chatbotCorpId\":\"B1\",\"conversationType\":\"1\"}''
        then Inr (JObject [(''chatbotCorpId'', JString ''B1''), (''conversationType'', JString ''1'')])
      else if s = ''{\"chatbotCorpId\":\"B2\",\"conversationType\":\"2\"}''
        then Inr (JObject [(''chatbotCorpId'', JString ''B2''), (''conversationType'', JString ''2'')])
      else if s = ''{\"chatbotCorpId\":\"B1\",\"conversationType\":\"3\"}''
        then Inr (JObject [(''chatbotCorpId'', JString ''B1''), (''conversationType'', JString ''3'')])
      else if s = ''{}'' then Inr (JObject [])
      else Inl (OtherError ''JSONDecodeError''))"

definition example_event :: "EventClass \<Rightarrow> Event" where
  "example_event c =
     \<lparr>event_class = c, conversationId = ''cid1'', senderId = ''user1'',
      sessionWebhook = ''https://oapi.dingtalk.com/robot/sendBySession?session=s1'',
      sessionWebhookExpiredTime = 1000000\<rparr>"

text \<open>
  The clocks of the example. \<^verbatim>\<open>time.time()\<close> is the binary64 number nearest to
  1700000000.0015, which lies just below it: its exact thousandfold is below
  1700000000001.5, but the floating-point product is 1700000000001.5 exactly, a tie that
  \<^verbatim>\<open>round\<close> resolves to 1700000000002. \<^verbatim>\<open>datetime.now().timestamp()\<close> is 1000.5, half
  a second after the example event's expiry of 1000000 milliseconds.
\<close>

definition example_clock :: rat where
  "example_clock = 7130316800006291 / 4194304"

definition example_host :: "string \<Rightarrow> host" where
  "example_host body =
     \<lparr>calc_hmac_base64 = example_calc,
      time_time = example_clock,
      datetime_now_timestamp = 2001 / 2,
      api_timeout = Some 30,
      send_request = (\<lambda>r. Inr \<lparr>status_code = 200, response_content = Some body\<rparr>),
      json_loads = example_json_loads,
      json_dumps_produce = (\<lambda>m. ''{}''),
      escape_tag = (\<lambda>s. s),
      is_private = (\<lambda>v. v = JString ''1''),
      is_group = (\<lambda>v. v = JString ''2''),
      parse_private = (\<lambda>j. Inr (example_event PrivateMessageEvent)),
      parse_group = (\<lambda>j. Inr (example_event GroupMessageEvent)),
      create_task = (\<lambda>b e. None)\<rparr>"

definition example_bot :: Bot where
  "example_bot = \<lparr>self_id = JString ''B1'', obj_id = 0\<rparr>"

definition example_message :: Message where
  "example_message = [MessageSegment ''text'' [(''content'', JString ''hello'')]]"

definition example_config :: Config where
  "example_config = \<lparr>ding_webhook_urlpath = None, secret = ''SEC''\<rparr>"

text \<open>An inbound request with the given signature and body, stamped \<^verbatim>\<open>1700000000124\<close>.\<close>

definition example_request :: "string \<Rightarrow> string option \<Rightarrow> Request" where
  "example_request sig body =
     \<lparr>http_method = ''POST'', url = ''/ding'',
      headers = [''timestamp'' \<mapsto> ''1700000000124'', ''sign'' \<mapsto> sig],
      params = [], timeout = None, content = body\<rparr>"

definition good_sign :: string where
  "good_sign = ''mac+SEC/1700000000124==''"

definition fresh_adapter :: Adapter where
  "fresh_adapter = \<lparr>bots = Map.empty, next_obj_id = 0\<rparr>"

definition ok_body :: string where
  "ok_body = ''{\"errcode\":0,\"errmsg\":\"ok\"}''"

definition bad_body :: string where
  "bad_body = ''{\"errcode\":1,\"errmsg\":\"bad\"}''"

text \<open>An event whose session address expired at 5 seconds, long before the example clock.\<close>

definition expired_event :: Event where
  "expired_event = (example_event GroupMessageEvent)\<lparr>sessionWebhookExpiredTime := 5000\<rparr>"

text \<open>Keyword arguments: a signed direct webhook, a webhook with an event, an event alone.\<close>

definition webhook_data :: "string option \<Rightarrow> call_data" where
  "webhook_data key =
     \<lparr>kw_webhook = Some ''https://oapi.dingtalk.com/robot/send?access_token=t'',
      kw_secret = key, kw_event = None, kw_message = Some example_message\<rparr>"

definition both_data :: call_data where
  "both_data =
     \<lparr>kw_webhook = Some ''https://oapi.dingtalk.com/robot/send?access_token=t'',
      kw_secret = None, kw_event = Some expired_event, kw_message = Some example_message\<rparr>"

definition session_data :: "Event \<Rightarrow> call_data" where
  "session_data ev =
     \<lparr>kw_webhook = None, kw_secret = None, kw_event = Some ev,
      kw_message = Some example_message\<rparr>"

text \<open>The request the signed example call issues.\<close>

definition signed_request :: Request where
  "signed_request =
     \<lparr>http_method = ''POST'',
      url = ''https://oapi.dingtalk.com/robot/send?access_token=t'',
      headers = [''Content-Type'' \<mapsto> ''application/json''],
      params = [(''timestamp'', ''1700000000002''),
                (''sign'', ''mac%2BSEC%2F1700000000002%3D%3D'')],
      timeout = Some 30, content = Some ''{}''\<rparr>"

text \<open>Inbound bodies, a sequence of inbound requests, and the bots it creates.\<close>

definition private_body :: string where
  "private_body = ''{\"chatbotCorpId\":\"B1\",\"conversationType\":\"1\"}''"

definition group_body :: string where
  "group_body = ''{\"chatbotCorpId\":\"B2\",\"conversationType\":\"2\"}''"

definition empty_object_body :: string where
  "empty_object_body = ''{}''"

definition unknown_body :: string where
  "unknown_body = ''{\"chatbotCorpId\":\"B1\",\"conversationType\":\"3\"}''"

definition example_requests :: "Request list" where
  "example_requests =
     [example_request good_sign (Some private_body),
      example_request good_sign (Some group_body),
      example_request ''forged'' (Some group_body),
      example_request good_sign (Some unknown_body),
      example_request good_sign (Some private_body)]"

definition bot_B1 :: Bot where
  "bot_B1 = \<lparr>self_id = JString ''B1'', obj_id = 0\<rparr>"

definition bot_B2 :: Bot where
  "bot_B2 = \<lparr>self_id = JString ''B2'', obj_id = 1\<rparr>"

section \<open>Properties\<close>

subsection \<open>Percent-encoding is undone by decoding\<close>

lemma hex_value_hex_digit: "d < 16 \<Longrightarrow> hex_value (hex_digit d) = Some d"
  by (simp add: hex_value_def hex_digit_def Let_def)

lemma hex_value_special: "hex_value (CHR ''+'') = None" "hex_value (CHR '' '') = None"
  by (simp_all add: hex_value_def)

lemma hex_digit_not_special:
  assumes "d < 16"
  shows "hex_digit d \<noteq> CHR ''+''" and "hex_digit d \<noteq> CHR '' ''"
  using hex_value_hex_digit [OF assms] hex_value_special by auto

lemma always_safe_not_special:
  assumes "always_safe c"
  shows "c \<noteq> CHR ''%''" and "c \<noteq> CHR ''+''" and "c \<noteq> CHR '' ''"
  using assms by (auto simp: always_safe_def)

lemma of_char_div_16: "(of_char c :: nat) div 16 < 16"
  by (rule less_mult_imp_div_less) simp

lemma replace_quoter_space:
  "replace_char (CHR '' '') (CHR ''+'') (quoter [CHR '' ''] c) = plus_quoter c"
  using always_safe_not_special(3) [of c]
    hex_digit_not_special(2) [OF of_char_div_16, of c]
    hex_digit_not_special(2) [of "(of_char c :: nat) mod 16"]
  by (auto simp: replace_char_def quoter_def plus_quoter_def)

lemma replace_char_concat:
  "replace_char a b (concat xss) = concat (map (replace_char a b) xss)"
  by (induction xss) (simp_all add: replace_char_def)

lemma quote_plus_bytewise: "quote_plus bs = concat (map plus_quoter bs)"
proof (cases "CHR '' '' \<in> set bs")
  case True
  then show ?thesis
    by (simp add: quote_plus_def quote_from_bytes_def replace_char_concat comp_def
        replace_quoter_space)
next
  case False
  then have "map (quoter []) bs = map plus_quoter bs"
    by (auto simp: plus_quoter_def)
  moreover from False have "quote_plus bs = concat (map (quoter []) bs)"
    by (simp add: quote_plus_def quote_from_bytes_def)
  ultimately show ?thesis
    by (simp only:)
qed

lemma unquote_plain:
  "c \<noteq> CHR ''%'' \<Longrightarrow> unquote_to_bytes (c # cs) = c # unquote_to_bytes cs"
  by (cases cs rule: unquote_to_bytes.cases) auto

lemma unquote_plus_quoter:
  "unquote_to_bytes (replace_char (CHR ''+'') (CHR '' '') (plus_quoter c) @ cs)
     = c # unquote_to_bytes cs"
  using always_safe_not_special [of c] hex_digit_not_special(1) [OF of_char_div_16, of c]
    hex_digit_not_special(1) [of "(of_char c :: nat) mod 16"]
  by (auto simp: plus_quoter_def quoter_def replace_char_def unquote_plain
      hex_value_hex_digit of_char_div_16)

lemma unquote_plus_quote_plus: "unquote_plus (quote_plus bs) = bs"
proof -
  have "unquote_to_bytes (replace_char (CHR ''+'') (CHR '' '') (concat (map plus_quoter bs))) = bs"
  proof (induction bs)
    case Nil
    show ?case by (simp add: replace_char_def)
  next
    case (Cons c bs)
    have "replace_char (CHR ''+'') (CHR '' '') (concat (map plus_quoter (c # bs)))
        = replace_char (CHR ''+'') (CHR '' '') (plus_quoter c)
          @ replace_char (CHR ''+'') (CHR '' '') (concat (map plus_quoter bs))"
      by (simp add: replace_char_def)
    then show ?case
      using Cons.IH by (simp only: unquote_plus_quoter)
  qed
  then show ?thesis
    by (simp add: unquote_plus_def quote_plus_bytewise)
qed

subsection \<open>Numbers\<close>

lemma decimal_value_snoc:
  "decimal_value (s @ [c]) = 10 * decimal_value s + (int (of_char c) - 48)"
  by (simp add: decimal_value_def)

lemma decimal_value_str_digits: "0 \<le> n \<Longrightarrow> decimal_value (str_digits n) = n"
proof (induction n rule: str_digits.induct)
  case (1 n)
  show ?case
  proof (cases "n < 10")
    case True
    with "1.prems" have "nat n < 10" by simp
    then have "(48 + nat n) mod 256 = 48 + nat n" by simp
    with True "1.prems" show ?thesis
      by (subst str_digits.simps) (simp add: decimal_value_def digit_char_def)
  next
    case False
    then have "0 \<le> n div 10" by simp
    with False "1.IH" have IH: "decimal_value (str_digits (n div 10)) = n div 10" by simp
    have "nat (n mod 10) < 10" by simp
    then have m: "(48 + nat (n mod 10)) mod 256 = 48 + nat (n mod 10)" by simp
    from False show ?thesis
      by (subst str_digits.simps) (simp add: decimal_value_snoc IH digit_char_def m)
  qed
qed

lemma decimal_value_str_int: "0 \<le> n \<Longrightarrow> decimal_value (str_int n) = n"
  by (simp add: str_int_def decimal_value_str_digits)

lemma py_round_near: "\<bar>of_int (py_round x) - x\<bar> \<le> 1 / 2"
proof -
  define f where "f = \<lfloor>x\<rfloor>"
  have lo: "of_int f \<le> x" and hi: "x < of_int f + 1"
    by (simp_all add: f_def) linarith
  have "py_round x = f \<and> x - of_int f \<le> 1 / 2 \<or> py_round x = f + 1 \<and> 1 / 2 \<le> x - of_int f"
    by (auto simp: py_round_def Let_def f_def)
  with lo hi show ?thesis
    by (auto simp: abs_le_iff)
qed

lemma py_int_nonneg: "0 \<le> x \<Longrightarrow> py_int x = \<lfloor>x\<rfloor>"
  by (simp add: py_int_def)

lemma py_round_nonneg: "0 \<le> x \<Longrightarrow> 0 \<le> py_round x"
  by (auto simp: py_round_def Let_def)

text \<open>
  Binary64 rounding: \<open>ilog2\<close> finds the power of two at or below its argument, and the
  rounded value is within the fraction \<open>1 / 2 ^ 53\<close> of the exact one.
\<close>

lemma bit_length_bounds:
  "0 < n \<Longrightarrow> 2 ^ (bit_length n - 1) \<le> n \<and> n < 2 ^ bit_length n"
proof (induction n rule: bit_length.induct)
  case (1 n)
  show ?case
  proof (cases "n = 1")
    case True
    then show ?thesis
      by (simp add: bit_length.simps [of 1] bit_length.simps [of 0])
  next
    case False
    with "1.prems" have pos: "0 < n div 2" by simp
    with "1.IH" "1.prems"
    have IH: "2 ^ (bit_length (n div 2) - 1) \<le> n div 2" "n div 2 < 2 ^ bit_length (n div 2)"
      by simp_all
    have bl: "bit_length n = Suc (bit_length (n div 2))"
      using "1.prems" by (subst bit_length.simps) simp
    have gt: "0 < bit_length (n div 2)"
      using pos by (subst bit_length.simps) simp
    then have "(2::int) ^ bit_length (n div 2) = 2 * 2 ^ (bit_length (n div 2) - 1)"
      by (cases "bit_length (n div 2)") simp_all
    with IH show ?thesis
      unfolding bl by simp linarith
  qed
qed


lemma ilog2_bounds:
  assumes "0 < x"
  shows "power_int 2 (ilog2 x) \<le> x" and "x < power_int 2 (ilog2 x + 1)"
proof -
  obtain p q where pq: "quotient_of x = (p, q)"
    by (cases "quotient_of x") auto
  then have q: "0 < q" and x: "x = of_int p / of_int q"
    by (simp_all add: quotient_of_denom_pos quotient_of_div)
  from assms q x have p: "0 < p"
    by (simp add: zero_less_divide_iff)
  define bp bq where "bp = bit_length p" and "bq = bit_length q"
  define d where "d = int bp - int bq"
  have P: "2 ^ (bp - 1) \<le> p" "p < 2 ^ bp" and Q: "2 ^ (bq - 1) \<le> q" "q < 2 ^ bq"
    using bit_length_bounds [OF p] bit_length_bounds [OF q] by (simp_all add: bp_def bq_def)
  have bp: "0 < bp" and bq: "0 < bq"
    using p q by (simp_all add: bp_def bq_def bit_length.simps [of p] bit_length.simps [of q])
  have rp: "(2::rat) ^ (bp - 1) \<le> of_int p" "of_int p < (2::rat) ^ bp"
    and rq: "(2::rat) ^ (bq - 1) \<le> of_int q" "of_int q < (2::rat) ^ bq"
    using P Q by (simp_all flip: of_int_power add: of_int_le_iff of_int_less_iff del: of_int_power)
  have low: "power_int 2 (d - 1) \<le> x"
  proof -
    have "power_int (2::rat) (d - 1) = power_int 2 (int (bp - 1) - int bq)"
      using bp by (simp add: d_def of_nat_diff algebra_simps)
    also have "\<dots> = 2 ^ (bp - 1) / 2 ^ bq"
      by (simp add: power_int_diff)
    also have "\<dots> \<le> of_int p / of_int q"
      using rp(1) rq(2) p q by (intro frac_le) simp_all
    finally show ?thesis by (simp add: x)
  qed
  have high: "x < power_int 2 (d + 1)"
  proof -
    have "of_int p / of_int q < 2 ^ bp / (2::rat) ^ (bq - 1)"
      using rp(2) rq(1) p q by (intro frac_less) simp_all
    also have "\<dots> = power_int 2 (int bp - int (bq - 1))"
      by (simp add: power_int_diff)
    also have "\<dots> = power_int 2 (d + 1)"
      using bq by (simp add: d_def of_nat_diff algebra_simps)
    finally show ?thesis by (simp add: x)
  qed
  have il: "ilog2 x = (if power_int 2 d \<le> x then d else d - 1)"
    by (simp add: ilog2_def pq Let_def d_def bp_def bq_def)
  show "power_int 2 (ilog2 x) \<le> x"
    using low by (simp add: il)
  show "x < power_int 2 (ilog2 x + 1)"
    using high by (auto simp: il not_le)
qed

lemma round_to_double_error: "\<bar>round_to_double x - x\<bar> \<le> \<bar>x\<bar> / 2 ^ 53"
proof (cases "x = 0")
  case True
  then show ?thesis by (simp add: round_to_double_def)
next
  case False
  define e where "e = ilog2 \<bar>x\<bar> - 52"
  define s :: rat where "s = power_int 2 e"
  have s: "0 < s" by (simp add: s_def)
  have r: "round_to_double x = of_int (py_round (x / s)) * s"
    using False by (simp add: round_to_double_def Let_def e_def s_def)
  have "of_int (py_round (x / s)) * s - x = (of_int (py_round (x / s)) - x / s) * s"
    using s by (simp add: field_simps)
  then have "\<bar>of_int (py_round (x / s)) * s - x\<bar> = \<bar>of_int (py_round (x / s)) - x / s\<bar> * s"
    using s by (simp add: abs_mult)
  also have "\<dots> \<le> 1 / 2 * s"
    using py_round_near [of "x / s"] s by (intro mult_right_mono) simp_all
  also have "1 / 2 * s = power_int 2 (ilog2 \<bar>x\<bar>) / 2 ^ 53"
    by (simp add: s_def e_def power_int_diff)
  also have "\<dots> \<le> \<bar>x\<bar> / 2 ^ 53"
    using ilog2_bounds(1) [of "\<bar>x\<bar>"] False by (intro divide_right_mono) simp_all
  finally show ?thesis by (simp add: r)
qed

lemma round_to_double_nonneg: "0 \<le> x \<Longrightarrow> 0 \<le> round_to_double x"
proof -
  assume "0 \<le> x"
  then have "0 \<le> x / power_int 2 e" for e :: int
    by simp
  then have "0 \<le> py_round (x / power_int 2 e)" for e :: int
    by (auto simp: py_round_def Let_def)
  then show ?thesis
    by (simp add: round_to_double_def Let_def)
qed

lemma timestamp_near:
  "\<bar>of_int (py_round (round_to_double x)) - x\<bar> \<le> 1 / 2 + \<bar>x\<bar> / 2 ^ 53"
proof -
  have "\<bar>of_int (py_round (round_to_double x)) - x\<bar>
      \<le> \<bar>of_int (py_round (round_to_double x)) - round_to_double x\<bar> + \<bar>round_to_double x - x\<bar>"
    by simp
  also have "\<dots> \<le> 1 / 2 + \<bar>x\<bar> / 2 ^ 53"
    by (intro add_mono py_round_near round_to_double_error)
  finally show ?thesis .
qed

lemma round_to_double_examples: "round_to_double 5 = 5" "round_to_double 1000 = 1000"
  by code_simp+


section \<open>Outbound calls\<close>

lemma try_body_clock: "try_body (h\<lparr>datetime_now_timestamp := t\<rparr>) r = try_body h r"
  by (simp add: try_body_def Let_def split: sum.split)

text \<open>
  C7. A call that supplies neither a webhook (the keyword is absent or empty) nor an event
  fails with \<open>ApiNotAvailable\<close>, and no HTTP request is issued.
\<close>

theorem call_api_neither_webhook_nor_event:
  assumes "\<not> truthy (kw_webhook data)" and "kw_event data = None"
  shows "fst (call_api h b api data) = Inl ApiNotAvailable
       \<and> http_requests (snd (call_api h b api data)) = []"
  using assms by (simp add: call_api_def)

theorem call_api_neither_webhook_nor_event_witness:
  "\<not> truthy (Some '''') \<and>
   fst (call_api (example_host ''{\"errcode\":0,\"errmsg\":\"ok\"}'') example_bot ''send_message''
          \<lparr>kw_webhook = Some '''', kw_secret = Some ''SEC'', kw_event = None,
           kw_message = Some example_message\<rparr>) = Inl ApiNotAvailable
   \<and> http_requests (snd (call_api (example_host ''{\"errcode\":0,\"errmsg\":\"ok\"}'') example_bot
          ''send_message''
          \<lparr>kw_webhook = Some '''', kw_secret = Some ''SEC'', kw_event = None,
           kw_message = Some example_message\<rparr>)) = []"
  using call_api_neither_webhook_nor_event
    [of "\<lparr>kw_webhook = Some '''', kw_secret = Some ''SEC'', kw_event = None,
           kw_message = Some example_message\<rparr>"
        "example_host ''{\"errcode\":0,\"errmsg\":\"ok\"}''" example_bot "''send_message''"]
  by (simp add: truthy_def)

lemmas example_defs = example_host_def example_json_loads_def example_calc_def example_event_def
  example_message_def example_bot_def ok_body_def bad_body_def expired_event_def
  webhook_data_def both_data_def session_data_def truthy_def py_str_def

lemma both_call:
  "call_api (example_host ok_body) example_bot ''send_message'' both_data
     = (Inr (JObject [(''errcode'', JInt 0), (''errmsg'', JString ''ok'')]),
        [Log ''DEBUG'' ''Calling API <y>send_message</y>'' None,
         HttpRequest \<lparr>http_method = ''POST'',
           url = ''https://oapi.dingtalk.com/robot/send?access_token=t'',
           headers = [''Content-Type'' \<mapsto> ''application/json''],
           params = [], timeout = Some 30, content = Some ''{}''\<rparr>])"
  by (simp add: call_api_def try_body_def example_defs Let_def)

lemma expired_clock:
  "py_int (datetime_now_timestamp (example_host body))
     > py_int (round_to_double (of_int (sessionWebhookExpiredTime expired_event) / 1000))"
  by (simp add: example_defs py_int_def round_to_double_examples)

lemma session_call:
  "call_api (example_host ok_body) example_bot ''send_message''
       (session_data (example_event PrivateMessageEvent))
     = (Inr (JObject [(''errcode'', JInt 0), (''errmsg'', JString ''ok'')]),
        [Log ''DEBUG'' ''Calling API <y>send_message</y>'' None,
         HttpRequest \<lparr>http_method = ''POST'',
           url = ''https://oapi.dingtalk.com/robot/sendBySession?session=s1'',
           headers = [''Content-Type'' \<mapsto> ''application/json''],
           params = [], timeout = Some 30, content = Some ''{}''\<rparr>])"
  by (simp add: call_api_def try_body_def example_defs Let_def py_int_def
      round_to_double_examples)

text \<open>
  C10. When a webhook is supplied (non-empty) together with an event, the call cannot fail
  with \<open>SessionExpired\<close>; its result and effects are the same whatever the event and
  whatever the clock read for the expiry check, so the expiry is never consulted; every
  request it issues goes to the supplied webhook, and with a message exactly one is issued.
\<close>

theorem call_api_webhook_before_event:
  assumes "truthy (kw_webhook data)" and "kw_event data = Some ev"
  shows "fst (call_api h b api data) \<noteq> Inl SessionExpired
       \<and> (\<forall>t e. call_api (h\<lparr>datetime_now_timestamp := t\<rparr>) b api (data\<lparr>kw_event := e\<rparr>)
                 = call_api h b api data)
       \<and> (\<forall>r \<in> set (http_requests (snd (call_api h b api data))).
             url r = py_str (kw_webhook data))
       \<and> (\<forall>m. kw_message data = Some m \<and> m \<noteq> []
             \<longrightarrow> length (http_requests (snd (call_api h b api data))) = 1)"
proof -
  have "fst (call_api h b api data) \<noteq> Inl SessionExpired"
    using assms(1) by (auto simp: call_api_def Let_def split: option.splits sum.splits if_splits)
  moreover have "call_api (h\<lparr>datetime_now_timestamp := t\<rparr>) b api (data\<lparr>kw_event := e\<rparr>)
                 = call_api h b api data" for t e
    using assms(1) by (simp add: call_api_def Let_def try_body_clock split: option.split)
  moreover have "url r = py_str (kw_webhook data)"
    if "r \<in> set (http_requests (snd (call_api h b api data)))" for r
    using assms(1) that by (auto simp: call_api_def Let_def split: option.splits if_splits)
  moreover have "length (http_requests (snd (call_api h b api data))) = 1"
    if "kw_message data = Some m \<and> m \<noteq> []" for m
    using assms(1) that by (simp add: call_api_def Let_def)
  ultimately show ?thesis by blast
qed

text \<open>
  The event of \<open>both_data\<close> expired long before the clock of the example; the call still
  goes to the webhook.
\<close>

theorem call_api_webhook_before_event_witness:
  "truthy (kw_webhook both_data)
   \<and> kw_event both_data = Some expired_event
   \<and> py_int (datetime_now_timestamp (example_host ok_body))
       > py_int (round_to_double (of_int (sessionWebhookExpiredTime expired_event) / 1000))
   \<and> fst (call_api (example_host ok_body) example_bot ''send_message'' both_data)
       \<noteq> Inl SessionExpired
   \<and> map url (http_requests (snd (call_api (example_host ok_body) example_bot ''send_message''
         both_data)))
       = [''https://oapi.dingtalk.com/robot/send?access_token=t'']"
  using call_api_webhook_before_event
    [of both_data expired_event "example_host ok_body" example_bot "''send_message''"]
    expired_clock [of ok_body]
  by (simp add: both_call) (simp add: both_data_def truthy_def)

text \<open>
  The expiry check of line 122, as the code has it. In session-reply mode (no webhook, an
  event) it compares whole seconds: the call fails with \<open>SessionExpired\<close>, without any HTTP
  request, exactly when the clock truncated to seconds is greater than the expiry's
  milliseconds divided by 1000 (in floating point) and truncated. Otherwise the call does
  not fail with \<open>SessionExpired\<close>, every request it issues goes to the event's
  \<open>sessionWebhook\<close> with no query parameters, and with a message exactly one request is
  issued.
\<close>

lemma session_reply_check:
  assumes "\<not> truthy (kw_webhook data)" and "kw_event data = Some ev"
  shows "if py_int (datetime_now_timestamp h) > py_int (round_to_double (of_int (sessionWebhookExpiredTime ev) / 1000))
         then fst (call_api h b api data) = Inl SessionExpired
              \<and> http_requests (snd (call_api h b api data)) = []
         else fst (call_api h b api data) \<noteq> Inl SessionExpired
              \<and> (\<forall>r \<in> set (http_requests (snd (call_api h b api data))).
                    url r = sessionWebhook ev \<and> params r = [])
              \<and> (\<forall>m. kw_message data = Some m \<and> m \<noteq> []
                    \<longrightarrow> length (http_requests (snd (call_api h b api data))) = 1)"
  using assms by (auto simp: call_api_def Let_def split: option.splits sum.splits if_splits)

text \<open>
  Both branches at the example clock of 1000.5 seconds: the event that expired at 5 seconds is
  refused without a request; the event that expires at 1000000 milliseconds is answered at
  its session address.
\<close>

lemma session_reply_check_examples:
  "\<not> truthy (kw_webhook (session_data expired_event))
   \<and> kw_event (session_data expired_event) = Some expired_event
   \<and> py_int (datetime_now_timestamp (example_host ok_body))
       > py_int (round_to_double (of_int (sessionWebhookExpiredTime expired_event) / 1000))
   \<and> fst (call_api (example_host ok_body) example_bot ''send_message''
        (session_data expired_event)) = Inl SessionExpired
   \<and> http_requests (snd (call_api (example_host ok_body) example_bot ''send_message''
        (session_data expired_event))) = []
   \<and> \<not> py_int (datetime_now_timestamp (example_host ok_body))
       > py_int (round_to_double (of_int (sessionWebhookExpiredTime (example_event PrivateMessageEvent)) / 1000))
   \<and> map url (http_requests (snd (call_api (example_host ok_body) example_bot ''send_message''
        (session_data (example_event PrivateMessageEvent)))))
       = [sessionWebhook (example_event PrivateMessageEvent)]"
proof -
  have live: "\<not> py_int (datetime_now_timestamp (example_host ok_body))
       > py_int (round_to_double (of_int (sessionWebhookExpiredTime (example_event PrivateMessageEvent)) / 1000))"
    by (simp add: example_defs py_int_def round_to_double_examples)
  have url: "map url (http_requests (snd (call_api (example_host ok_body) example_bot
        ''send_message'' (session_data (example_event PrivateMessageEvent)))))
       = [sessionWebhook (example_event PrivateMessageEvent)]"
    by (simp add: session_call) (simp add: example_event_def)
  show ?thesis
    using session_reply_check
      [of "session_data expired_event" expired_event "example_host ok_body" example_bot
          "''send_message''"]
      expired_clock [of ok_body] live url
    by (simp add: session_data_def truthy_def)
qed

text \<open>
  C1. The claim fails on the code. The example event expires at 1000000 milliseconds and
  the clock reads 1000.5 seconds, half a second past the expiry; line 122 compares
  \<^verbatim>\<open>int(1000.5) > int(1000000 / 1000)\<close>, that is 1000 > 1000, so the call does not fail
  with \<open>SessionExpired\<close> and one HTTP request is issued to the expired session address.
\<close>

theorem call_api_sends_after_expiry:
  "\<not> truthy (kw_webhook (session_data (example_event PrivateMessageEvent)))
   \<and> kw_event (session_data (example_event PrivateMessageEvent))
       = Some (example_event PrivateMessageEvent)
   \<and> of_int (sessionWebhookExpiredTime (example_event PrivateMessageEvent)) / 1000
       < datetime_now_timestamp (example_host ok_body)
   \<and> fst (call_api (example_host ok_body) example_bot ''send_message''
        (session_data (example_event PrivateMessageEvent))) \<noteq> Inl SessionExpired
   \<and> length (http_requests (snd (call_api (example_host ok_body) example_bot ''send_message''
        (session_data (example_event PrivateMessageEvent))))) = 1"
  by (simp add: session_call) (simp add: example_defs)

text \<open>
  No call ever ends in \<open>ActionFailed\<close>: the \<^verbatim>\<open>raise ActionFailed\<close> of line 152 stands inside
  the \<^verbatim>\<open>try\<close> whose \<^verbatim>\<open>except Exception\<close> re-raises everything as \<open>NetworkError\<close>.
\<close>

lemma call_api_never_action_failed: "fst (call_api h b api data) \<noteq> Inl (ActionFailed c m)"
  by (auto simp: call_api_def Let_def split: option.splits sum.splits if_splits prod.splits)

text \<open>
  C2, at the input of the spec's own example: the driver answers 200 with the body
  \<^verbatim>\<open>{"errcode":1,"errmsg":"bad"}\<close>. The caller sees \<open>NetworkError\<close>; the \<open>ActionFailed\<close>
  with code 1 and message \<^verbatim>\<open>bad\<close> is only its cause.
\<close>

theorem call_api_action_failed_is_wrapped:
  "call_api (example_host bad_body) example_bot ''send_message'' (webhook_data None)
     = (Inl (NetworkError ''HTTP request failed''
              (Some (ActionFailed (Some (JInt 1)) (Some (JString ''bad''))))),
        [Log ''DEBUG'' ''Calling API <y>send_message</y>'' None,
         HttpRequest \<lparr>http_method = ''POST'',
           url = ''https://oapi.dingtalk.com/robot/send?access_token=t'',
           headers = [''Content-Type'' \<mapsto> ''application/json''],
           params = [], timeout = Some 30, content = Some ''{}''\<rparr>])"
  by (simp add: call_api_def try_body_def example_defs Let_def)

lemma check_signature_fst:
  "fst (check_signature h cfg request)
     = (headers request ''sign''
          = Some (calc_hmac_base64 h (py_str (headers request ''timestamp'')) (secret cfg)))"
  by (simp add: check_signature_def Let_def)

lemma example_timestamp:
  "str_int (py_round (round_to_double (example_clock * 1000))) = ''1700000000002''"
  by code_simp

text \<open>Rounding the exact product instead would give the millisecond before.\<close>

lemma example_exact_product: "py_round (example_clock * 1000) = 1700000000001"
  by code_simp

lemma example_sign:
  "quote_plus ''mac+SEC/1700000000002=='' = ''mac%2BSEC%2F1700000000002%3D%3D''"
  by code_simp

lemma signed_call:
  "call_api (example_host ok_body) example_bot ''send_message'' (webhook_data (Some ''SEC''))
     = (Inr (JObject [(''errcode'', JInt 0), (''errmsg'', JString ''ok'')]),
        [Log ''DEBUG'' ''Calling API <y>send_message</y>'' None, HttpRequest signed_request])"
  by (simp add: call_api_def try_body_def example_defs Let_def example_timestamp example_sign
      signed_request_def)

lemma unsigned_call:
  "call_api (example_host ok_body) example_bot ''send_message'' (webhook_data None)
     = (Inr (JObject [(''errcode'', JInt 0), (''errmsg'', JString ''ok'')]),
        [Log ''DEBUG'' ''Calling API <y>send_message</y>'' None,
         HttpRequest (signed_request\<lparr>params := []\<rparr>)])"
  by (simp add: call_api_def try_body_def example_defs Let_def signed_request_def)

text \<open>
  C6. A call with a non-empty webhook issues its requests to that webhook (exactly one when
  a message is given). With a non-empty secret, each request carries exactly the query
  parameters \<open>timestamp\<close> and \<open>sign\<close>, in this order. \<open>timestamp\<close> is the decimal text of
  \<^verbatim>\<open>round(time.time() * 1000)\<close>, the floating-point product rounded to the nearest integer:
  it reads back as that integer, which is the clock's milliseconds to within a half plus
  the rounding error of the product (the fraction \<open>1 / 2 ^ 53\<close> of it). \<open>sign\<close>
  percent-decodes to \<open>calc_hmac_base64\<close> of that timestamp under that secret, so that a
  request carrying the timestamp and the decoded signature as headers passes
  \<open>check_signature\<close> under that secret. With no secret, or an empty one, the request has no
  query parameters.
\<close>

theorem call_api_direct_webhook_signing:
  assumes "truthy (kw_webhook data)"
  shows "(\<forall>m. kw_message data = Some m \<and> m \<noteq> []
            \<longrightarrow> length (http_requests (snd (call_api h b api data))) = 1)
       \<and> (\<forall>r \<in> set (http_requests (snd (call_api h b api data))).
            if truthy (kw_secret data) then
              (\<exists>timestamp sign.
                 params r = [(''timestamp'', timestamp), (''sign'', sign)]
                 \<and> timestamp = str_int (py_round (round_to_double (time_time h * 1000)))
                 \<and> \<bar>of_int (py_round (round_to_double (time_time h * 1000))) - time_time h * 1000\<bar>
                     \<le> 1 / 2 + \<bar>time_time h * 1000\<bar> / 2 ^ 53
                 \<and> (0 \<le> time_time h
                      \<longrightarrow> decimal_value timestamp = py_round (round_to_double (time_time h * 1000)))
                 \<and> unquote_plus sign = calc_hmac_base64 h timestamp (py_str (kw_secret data))
                 \<and> fst (check_signature h
                          \<lparr>ding_webhook_urlpath = None, secret = py_str (kw_secret data)\<rparr>
                          (r\<lparr>headers := [''timestamp'' \<mapsto> timestamp,
                                         ''sign'' \<mapsto> unquote_plus sign]\<rparr>)))
            else params r = [])"
proof -
  have one: "length (http_requests (snd (call_api h b api data))) = 1"
    if "kw_message data = Some m \<and> m \<noteq> []" for m
    using assms that by (simp add: call_api_def Let_def)
  have unsigned: "params r = []"
    if "r \<in> set (http_requests (snd (call_api h b api data)))" "\<not> truthy (kw_secret data)" for r
    using assms that by (auto simp: call_api_def Let_def split: option.splits if_splits)
  have signed: "params r = [(''timestamp'', str_int (py_round (round_to_double (time_time h * 1000)))),
                  (''sign'', quote_plus (calc_hmac_base64 h (str_int (py_round (round_to_double (time_time h * 1000))))
                                (py_str (kw_secret data))))]"
    if "r \<in> set (http_requests (snd (call_api h b api data)))" "truthy (kw_secret data)" for r
    using assms that by (auto simp: call_api_def Let_def split: option.splits if_splits)
  have dec: "decimal_value (str_int (py_round (round_to_double (time_time h * 1000)))) = py_round (round_to_double (time_time h * 1000))"
    if "0 \<le> time_time h"
    using that by (simp add: decimal_value_str_int py_round_nonneg round_to_double_nonneg)
  have each: "if truthy (kw_secret data) then
              (\<exists>timestamp sign.
                 params r = [(''timestamp'', timestamp), (''sign'', sign)]
                 \<and> timestamp = str_int (py_round (round_to_double (time_time h * 1000)))
                 \<and> \<bar>of_int (py_round (round_to_double (time_time h * 1000))) - time_time h * 1000\<bar>
                     \<le> 1 / 2 + \<bar>time_time h * 1000\<bar> / 2 ^ 53
                 \<and> (0 \<le> time_time h
                      \<longrightarrow> decimal_value timestamp = py_round (round_to_double (time_time h * 1000)))
                 \<and> unquote_plus sign = calc_hmac_base64 h timestamp (py_str (kw_secret data))
                 \<and> fst (check_signature h
                          \<lparr>ding_webhook_urlpath = None, secret = py_str (kw_secret data)\<rparr>
                          (r\<lparr>headers := [''timestamp'' \<mapsto> timestamp,
                                         ''sign'' \<mapsto> unquote_plus sign]\<rparr>)))
            else params r = []"
    if r: "r \<in> set (http_requests (snd (call_api h b api data)))" for r
  proof (cases "truthy (kw_secret data)")
    case False
    with unsigned [OF r] show ?thesis by simp
  next
    case True
    have "\<exists>timestamp sign.
                 params r = [(''timestamp'', timestamp), (''sign'', sign)]
                 \<and> timestamp = str_int (py_round (round_to_double (time_time h * 1000)))
                 \<and> \<bar>of_int (py_round (round_to_double (time_time h * 1000))) - time_time h * 1000\<bar>
                     \<le> 1 / 2 + \<bar>time_time h * 1000\<bar> / 2 ^ 53
                 \<and> (0 \<le> time_time h
                      \<longrightarrow> decimal_value timestamp = py_round (round_to_double (time_time h * 1000)))
                 \<and> unquote_plus sign = calc_hmac_base64 h timestamp (py_str (kw_secret data))
                 \<and> fst (check_signature h
                          \<lparr>ding_webhook_urlpath = None, secret = py_str (kw_secret data)\<rparr>
                          (r\<lparr>headers := [''timestamp'' \<mapsto> timestamp,
                                         ''sign'' \<mapsto> unquote_plus sign]\<rparr>))"
    proof (intro exI conjI impI)
      show "params r = [(''timestamp'', str_int (py_round (round_to_double (time_time h * 1000)))),
                  (''sign'', quote_plus (calc_hmac_base64 h (str_int (py_round (round_to_double (time_time h * 1000))))
                                (py_str (kw_secret data))))]"
        by (rule signed [OF r True])
      show "str_int (py_round (round_to_double (time_time h * 1000))) = str_int (py_round (round_to_double (time_time h * 1000)))"
        by (rule refl)
      show "\<bar>of_int (py_round (round_to_double (time_time h * 1000))) - time_time h * 1000\<bar>
              \<le> 1 / 2 + \<bar>time_time h * 1000\<bar> / 2 ^ 53"
        by (rule timestamp_near)
      show "decimal_value (str_int (py_round (round_to_double (time_time h * 1000)))) = py_round (round_to_double (time_time h * 1000))"
        if "0 \<le> time_time h"
        by (rule dec [OF that])
      show "unquote_plus (quote_plus (calc_hmac_base64 h (str_int (py_round (round_to_double (time_time h * 1000))))
                                (py_str (kw_secret data))))
            = calc_hmac_base64 h (str_int (py_round (round_to_double (time_time h * 1000)))) (py_str (kw_secret data))"
        by (rule unquote_plus_quote_plus)
      show "fst (check_signature h
                          \<lparr>ding_webhook_urlpath = None, secret = py_str (kw_secret data)\<rparr>
                          (r\<lparr>headers := [''timestamp'' \<mapsto> str_int (py_round (round_to_double (time_time h * 1000))),
                                         ''sign'' \<mapsto> unquote_plus (quote_plus (calc_hmac_base64 h (str_int (py_round (round_to_double (time_time h * 1000))))
                                (py_str (kw_secret data))))]\<rparr>))"
        by (simp add: check_signature_fst unquote_plus_quote_plus py_str_def)
    qed
    with True show ?thesis by (simp only: if_True)
  qed
  from one each show ?thesis by blast
qed

theorem call_api_direct_webhook_signing_witness:
  "truthy (kw_webhook (webhook_data (Some ''SEC'')))
   \<and> truthy (kw_secret (webhook_data (Some ''SEC'')))
   \<and> http_requests (snd (call_api (example_host ok_body) example_bot ''send_message''
         (webhook_data (Some ''SEC'')))) = [signed_request]
   \<and> unquote_plus ''mac%2BSEC%2F1700000000002%3D%3D''
       = calc_hmac_base64 (example_host ok_body) ''1700000000002'' ''SEC''
   \<and> fst (check_signature (example_host ok_body) example_config
          (signed_request\<lparr>headers := [''timestamp'' \<mapsto> ''1700000000002'',
              ''sign'' \<mapsto> unquote_plus ''mac%2BSEC%2F1700000000002%3D%3D'']\<rparr>))
   \<and> truthy (kw_webhook (webhook_data None))
   \<and> \<not> truthy (kw_secret (webhook_data None))
   \<and> map params (http_requests (snd (call_api (example_host ok_body) example_bot ''send_message''
         (webhook_data None)))) = [[]]"
proof -
  have w: "truthy (kw_webhook (webhook_data key))" for key
    by (simp add: example_defs)
  have s: "truthy (kw_secret (webhook_data (Some ''SEC'')))"
    and n: "\<not> truthy (kw_secret (webhook_data None))"
    by (simp_all add: example_defs)
  have "signed_request \<in> set (http_requests (snd (call_api (example_host ok_body) example_bot
          ''send_message'' (webhook_data (Some ''SEC'')))))"
    by (simp add: signed_call)
  with call_api_direct_webhook_signing
    [OF w, of "Some ''SEC''" "example_host ok_body" example_bot "''send_message''"] s
  obtain timestamp sign where
    p: "params signed_request = [(''timestamp'', timestamp), (''sign'', sign)]" and
    u: "unquote_plus sign
          = calc_hmac_base64 (example_host ok_body) timestamp (py_str (kw_secret (webhook_data (Some ''SEC''))))" and
    c: "fst (check_signature (example_host ok_body)
              \<lparr>ding_webhook_urlpath = None, secret = py_str (kw_secret (webhook_data (Some ''SEC'')))\<rparr>
              (signed_request\<lparr>headers := [''timestamp'' \<mapsto> timestamp,
                                         ''sign'' \<mapsto> unquote_plus sign]\<rparr>))"
    by (auto simp only: if_True)
  from p have "timestamp = ''1700000000002''" and "sign = ''mac%2BSEC%2F1700000000002%3D%3D''"
    by (simp_all add: signed_request_def)
  with u c have
    "unquote_plus ''mac%2BSEC%2F1700000000002%3D%3D''
       = calc_hmac_base64 (example_host ok_body) ''1700000000002'' ''SEC''"
    "fst (check_signature (example_host ok_body) example_config
          (signed_request\<lparr>headers := [''timestamp'' \<mapsto> ''1700000000002'',
              ''sign'' \<mapsto> unquote_plus ''mac%2BSEC%2F1700000000002%3D%3D'']\<rparr>))"
    by (simp_all add: webhook_data_def py_str_def example_config_def)
  moreover have "map params (http_requests (snd (call_api (example_host ok_body) example_bot
      ''send_message'' (webhook_data None)))) = [[]]"
    by (simp add: unsigned_call)
  ultimately show ?thesis
    using w s n by (simp add: signed_call)
qed

section \<open>Inbound requests\<close>

lemmas inbound_defs = handle_http_def check_signature_def get_bot_def classify_def
  example_request_def good_sign_def example_config_def fresh_adapter_def
  private_body_def group_body_def unknown_body_def empty_object_body_def bot_B1_def bot_B2_def

lemma unknown_type_run:
  "handle_http (example_host ok_body) example_config fresh_adapter
       (example_request good_sign (Some unknown_body))
     = (Inr None, \<lparr>bots = [KStr ''B1'' \<mapsto> bot_B1], next_obj_id = 1\<rparr>,
        [BotConnect bot_B1, Log ''INFO'' ''<y>Bot B1</y> connected'' None,
         Log ''ERROR'' ''Event Parser Error''
           (Some (ValueError ''Unsupported conversation type''))])"
  by (simp add: inbound_defs example_defs Let_def)

lemma example_run:
  "handle_all (example_host ok_body) example_config fresh_adapter example_requests
     = (\<lparr>bots = [KStr ''B1'' \<mapsto> bot_B1, KStr ''B2'' \<mapsto> bot_B2], next_obj_id = 2\<rparr>,
        [BotConnect bot_B1, Log ''INFO'' ''<y>Bot B1</y> connected'' None,
         CreateTask bot_B1 (example_event PrivateMessageEvent),
         BotConnect bot_B2, Log ''INFO'' ''<y>Bot B2</y> connected'' None,
         CreateTask bot_B2 (example_event GroupMessageEvent),
         Log ''WARNING'' ''Signature Header is invalid'' None,
         Log ''ERROR'' ''Event Parser Error''
           (Some (ValueError ''Unsupported conversation type'')),
         CreateTask bot_B1 (example_event PrivateMessageEvent)])"
  by (simp add: example_requests_def inbound_defs example_defs Let_def)

text \<open>
  C4. Verification succeeds exactly when the \<^verbatim>\<open>sign\<close> header is present and equal, as a
  string, to \<open>calc_hmac_base64\<close> of the timestamp text under the configured secret. The
  timestamp text is \<^verbatim>\<open>str\<close> of the \<^verbatim>\<open>timestamp\<close> header: the header itself when the request
  carries one, and the text \<^verbatim>\<open>None\<close> when it does not.
\<close>

theorem check_signature_iff:
  "(fst (check_signature h cfg request)
      \<longleftrightarrow> headers request ''sign''
            = Some (calc_hmac_base64 h (py_str (headers request ''timestamp'')) (secret cfg)))
   \<and> (\<forall>timestamp. headers request ''timestamp'' = Some timestamp \<longrightarrow>
         (fst (check_signature h cfg request)
            \<longleftrightarrow> headers request ''sign'' = Some (calc_hmac_base64 h timestamp (secret cfg))))"
  by (simp add: check_signature_fst py_str_def)

text \<open>The good signature passes; the same signature with its last character removed fails.\<close>

theorem check_signature_iff_witness:
  "headers (example_request good_sign None) ''timestamp'' = Some ''1700000000124''
   \<and> headers (example_request good_sign None) ''sign''
       = Some (calc_hmac_base64 (example_host ok_body) ''1700000000124'' (secret example_config))
   \<and> fst (check_signature (example_host ok_body) example_config (example_request good_sign None))
   \<and> headers (example_request ''mac+SEC/1700000000124='' None) ''sign''
       \<noteq> Some (calc_hmac_base64 (example_host ok_body) ''1700000000124'' (secret example_config))
   \<and> \<not> fst (check_signature (example_host ok_body) example_config
              (example_request ''mac+SEC/1700000000124='' None))"
  using check_signature_iff [of "example_host ok_body" example_config "example_request good_sign None"]
    check_signature_iff [of "example_host ok_body" example_config
      "example_request ''mac+SEC/1700000000124='' None"]
  by (simp add: example_request_def good_sign_def example_config_def example_defs)

text \<open>
  C5. A request that fails verification is answered 401; the adapter's state (the registry)
  is unchanged; the only effect is the warning logged by the check: no bot is connected and
  no event is handed over; and the outcome is the same whatever the body and whatever the
  JSON decoder, the event validators and the task creation would do, so none of them is
  consulted.
\<close>

theorem handle_http_bad_signature:
  assumes "\<not> fst (check_signature h cfg request)"
  shows "handle_http h cfg st request
           = (Inr (Some \<lparr>status_code = 401, response_content = None\<rparr>), st,
              [Log ''WARNING'' ''Signature Header is invalid'' None])
       \<and> (\<forall>body loads private group task.
             handle_http
               (h\<lparr>json_loads := loads, parse_private := private, parse_group := group,
                   create_task := task\<rparr>)
               cfg st (request\<lparr>content := body\<rparr>)
             = handle_http h cfg st request)"
  using assms by (simp add: handle_http_def check_signature_def Let_def split: if_splits)

theorem handle_http_bad_signature_witness:
  "\<not> fst (check_signature (example_host ok_body) example_config
           (example_request ''forged'' (Some group_body)))
   \<and> handle_http (example_host ok_body) example_config fresh_adapter
        (example_request ''forged'' (Some group_body))
       = (Inr (Some \<lparr>status_code = 401, response_content = None\<rparr>), fresh_adapter,
          [Log ''WARNING'' ''Signature Header is invalid'' None])
   \<and> handle_http (example_host ok_body) example_config fresh_adapter
        (example_request ''forged'' None)
       = handle_http (example_host ok_body) example_config fresh_adapter
        (example_request ''forged'' (Some group_body))"
proof -
  have bad: "\<not> fst (check_signature (example_host ok_body) example_config
           (example_request ''forged'' (Some group_body)))"
    by (simp add: check_signature_fst example_request_def example_config_def example_defs)
  have "(example_request ''forged'' (Some group_body))\<lparr>content := None\<rparr>
        = example_request ''forged'' None"
    by (simp add: example_request_def)
  moreover have "(example_host ok_body)\<lparr>json_loads := json_loads (example_host ok_body),
       parse_private := parse_private (example_host ok_body),
       parse_group := parse_group (example_host ok_body),
       create_task := create_task (example_host ok_body)\<rparr> = example_host ok_body"
    by simp
  ultimately show ?thesis
    using bad handle_http_bad_signature [OF bad, of fresh_adapter]
    by metis
qed




text \<open>
  C3, as the code has it. For an authentic request whose payload is an object with a string
  \<^verbatim>\<open>chatbotCorpId\<close> and a \<^verbatim>\<open>conversationType\<close> that is neither of the two recognised values,
  the error is logged and no event is handed over, but the handler leaves through the bare
  \<^verbatim>\<open>return\<close> of line 88: it returns \<^verbatim>\<open>None\<close>, not a response with status 204.
\<close>

theorem handle_http_unrecognized_conversation_type:
  assumes "fst (check_signature h cfg request)" and "truthy (content request)"
    and "json_loads h (py_str (content request)) = Inr (JObject items)"
    and "map_of items ''chatbotCorpId'' = Some (JString bot_id)"
    and "map_of items ''conversationType'' = Some conversation_type"
    and "\<not> is_private h conversation_type" and "\<not> is_group h conversation_type"
  shows "fst (handle_http h cfg st request) = Inr None
       \<and> created_tasks (snd (snd (handle_http h cfg st request))) = []
       \<and> Log ''ERROR'' ''Event Parser Error'' (Some (ValueError ''Unsupported conversation type''))
           \<in> set (snd (snd (handle_http h cfg st request)))"
proof -
  from assms(1) have sig: "check_signature h cfg request = (True, [])"
    by (auto simp: check_signature_def Let_def split: if_splits)
  have cls: "classify h (JObject items) = Inl (ValueError ''Unsupported conversation type'')"
    using assms(5-7) by (simp add: classify_def)
  show ?thesis
    using assms(2-4) sig cls
    by (cases "bots st (KStr bot_id)") (simp_all add: handle_http_def get_bot_def Let_def)
qed

theorem handle_http_unrecognized_conversation_type_witness:
  "fst (check_signature (example_host ok_body) example_config
          (example_request good_sign (Some unknown_body)))
   \<and> json_loads (example_host ok_body) unknown_body
       = Inr (JObject [(''chatbotCorpId'', JString ''B1''), (''conversationType'', JString ''3'')])
   \<and> fst (handle_http (example_host ok_body) example_config fresh_adapter
        (example_request good_sign (Some unknown_body))) = Inr None"
proof -
  have 1: "fst (check_signature (example_host ok_body) example_config
          (example_request good_sign (Some unknown_body)))"
    by (simp add: check_signature_fst example_request_def example_config_def good_sign_def
        example_defs)
  have 2: "truthy (content (example_request good_sign (Some unknown_body)))"
    by (simp add: example_request_def truthy_def unknown_body_def)
  have 3: "json_loads (example_host ok_body)
             (py_str (content (example_request good_sign (Some unknown_body))))
       = Inr (JObject [(''chatbotCorpId'', JString ''B1''), (''conversationType'', JString ''3'')])"
    by (simp add: example_request_def unknown_body_def example_defs)
  have 4: "map_of [(''chatbotCorpId'', JString ''B1''), (''conversationType'', JString ''3'')]
             ''chatbotCorpId'' = Some (JString ''B1'')"
    and 5: "map_of [(''chatbotCorpId'', JString ''B1''), (''conversationType'', JString ''3'')]
             ''conversationType'' = Some (JString ''3'')"
    by simp_all
  have 6: "\<not> is_private (example_host ok_body) (JString ''3'')"
    and 7: "\<not> is_group (example_host ok_body) (JString ''3'')"
    by (simp_all add: example_host_def)
  from handle_http_unrecognized_conversation_type [OF 1 2 3 4 5 6 7, of fresh_adapter] 1 3
  show ?thesis
    by (simp add: example_request_def py_str_def)
qed

subsection \<open>The registry over a sequence of requests\<close>

lemma connects_append: "connects (xs @ ys) = connects xs @ connects ys"
  by (induction xs rule: connects.induct) simp_all

lemma created_tasks_append: "created_tasks (xs @ ys) = created_tasks xs @ created_tasks ys"
  by (induction xs rule: created_tasks.induct) simp_all

text \<open>What one lookup-or-create does to the registry.\<close>

lemma get_bot_unhashable:
  "hash_key bot_id = Inl e \<Longrightarrow> get_bot h st bot_id = (Inl e, st, [])"
  by (simp add: get_bot_def)

lemma get_bot_known:
  "hash_key bot_id = Inr k \<Longrightarrow> bots st k = Some b \<Longrightarrow> get_bot h st bot_id = (Inr b, st, [])"
  by (simp add: get_bot_def)

lemma get_bot_new:
  assumes "hash_key bot_id = Inr k" and "bots st k = None"
    and "get_bot h st bot_id = (res, st1, es)"
  shows "bots st1 = (bots st)(k \<mapsto> \<lparr>self_id = bot_id, obj_id = next_obj_id st\<rparr>)"
    and "connects es = [\<lparr>self_id = bot_id, obj_id = next_obj_id st\<rparr>]"
    and "created_tasks es = []"
    and "res = Inr b \<Longrightarrow> b = \<lparr>self_id = bot_id, obj_id = next_obj_id st\<rparr>"
  using assms by (auto simp: get_bot_def Let_def split: json.splits)

text \<open>One request.\<close>

lemma observes_iff:
  "observes h cfg request k \<longleftrightarrow>
     fst (check_signature h cfg request) \<and> truthy (content request) \<and>
     (\<exists>json_data bot_id. json_loads h (py_str (content request)) = Inr json_data
        \<and> getitem json_data ''chatbotCorpId'' = Inr bot_id \<and> hash_key bot_id = Inr k)"
  by (auto simp: observes_def split: sum.splits)

lemma handle_http_cases:
  assumes "handle_http h cfg st request = (out, st1, es)"
  obtains
    (idle) "st1 = st" "connects es = []" "created_tasks es = []" "\<And>k. \<not> observes h cfg request k"
  | (seen) k bot_id res es0 where
      "\<And>k'. observes h cfg request k' \<longleftrightarrow> k' = k"
      "hash_key bot_id = Inr k"
      "get_bot h st bot_id = (res, st1, es0)"
      "connects es = connects es0"
      "created_tasks es = [] \<or> (\<exists>b e. res = Inr b \<and> created_tasks es = [(b, e)])"
proof (cases "fst (check_signature h cfg request) \<and> truthy (content request)")
  case False
  with assms have "st1 = st" "connects es = []" "created_tasks es = []"
    by (auto simp: handle_http_def check_signature_def Let_def split: if_splits)
  moreover from False have "\<not> observes h cfg request k" for k
    by (auto simp: observes_def)
  ultimately show ?thesis by (rule idle)
next
  case True
  then have sig: "check_signature h cfg request = (True, [])"
    by (auto simp: check_signature_def Let_def split: if_splits)
  show ?thesis
  proof (cases "json_loads h (py_str (content request))")
    case (Inl e)
    with assms True sig have "st1 = st" "connects es = []" "created_tasks es = []"
      by (auto simp: handle_http_def)
    moreover from Inl have "\<not> observes h cfg request k" for k
      by (auto simp: observes_def)
    ultimately show ?thesis by (rule idle)
  next
    case (Inr json_data)
    note loads = Inr
    show ?thesis
    proof (cases "getitem json_data ''chatbotCorpId''")
      case (Inl e)
      with assms True sig loads have "st1 = st" "connects es = []" "created_tasks es = []"
        by (auto simp: handle_http_def)
      moreover from Inl loads have "\<not> observes h cfg request k" for k
        by (auto simp: observes_def)
      ultimately show ?thesis by (rule idle)
    next
      case (Inr bot_id)
      note item = Inr
      show ?thesis
      proof (cases "hash_key bot_id")
        case (Inl e)
        with assms True sig loads item have "st1 = st" "connects es = []" "created_tasks es = []"
          by (auto simp: handle_http_def get_bot_unhashable)
        moreover from Inl loads item have "\<not> observes h cfg request k" for k
          by (auto simp: observes_def)
        ultimately show ?thesis by (rule idle)
      next
        case (Inr k)
        obtain res st0 es0 where g: "get_bot h st bot_id = (res, st0, es0)"
          by (cases "get_bot h st bot_id") auto
        have ct: "created_tasks es0 = []"
          using g Inr by (auto simp: get_bot_def Let_def split: option.splits json.splits)
        from assms True sig loads item g ct
        have "st1 = st0 \<and> connects es = connects es0
            \<and> (created_tasks es = [] \<or> (\<exists>b e. res = Inr b \<and> created_tasks es = [(b, e)]))"
          by (auto simp: handle_http_def connects_append created_tasks_append
              split: sum.splits option.splits)
        moreover from True loads item Inr have "observes h cfg request k' \<longleftrightarrow> k' = k" for k'
          by (auto simp: observes_def)
        ultimately show ?thesis
          using Inr g by (intro seen [of k bot_id res es0]) auto
      qed
    qed
  qed
qed


lemma handle_http_step:
  assumes "handle_http h cfg st request = (out, st1, es)"
  shows "bots st k = Some b \<Longrightarrow> bots st1 k = Some b"
    and "length (filter (\<lambda>b. key_of b = Some k) (connects es))
           = (if bots st k = None \<and> observes h cfg request k then 1 else 0)"
    and "bots st1 k \<noteq> None \<longleftrightarrow> bots st k \<noteq> None \<or> observes h cfg request k"
    and "observes h cfg request k \<Longrightarrow> (b', e) \<in> set (created_tasks es) \<Longrightarrow> bots st1 k = Some b'"
    and "observes h cfg request k \<Longrightarrow> bots st k \<noteq> None \<Longrightarrow> st1 = st \<and> connects es = []"
proof -
  have "(bots st k = Some b \<longrightarrow> bots st1 k = Some b)
      \<and> length (filter (\<lambda>b. key_of b = Some k) (connects es))
           = (if bots st k = None \<and> observes h cfg request k then 1 else 0)
      \<and> (bots st1 k \<noteq> None \<longleftrightarrow> bots st k \<noteq> None \<or> observes h cfg request k)
      \<and> (observes h cfg request k \<longrightarrow> (b', e) \<in> set (created_tasks es) \<longrightarrow> bots st1 k = Some b')
      \<and> (observes h cfg request k \<longrightarrow> bots st k \<noteq> None \<longrightarrow> st1 = st \<and> connects es = [])"
    using assms
  proof (cases rule: handle_http_cases)
    case idle
    then show ?thesis by simp
  next
    case (seen k0 bot_id res es0)
    show ?thesis
    proof (cases "bots st k0")
      case (Some b0)
      with seen(2,3) have "res = Inr b0" "st1 = st" "es0 = []"
        by (simp_all add: get_bot_known)
      with seen Some show ?thesis by auto
    next
      case None
      note new = get_bot_new [OF seen(2) None seen(3)]
      have "key_of \<lparr>self_id = bot_id, obj_id = next_obj_id st\<rparr> = Some k0"
        using seen(2) by (simp add: key_of_def)
      with seen None new show ?thesis by auto
    qed
  qed
  then show "bots st k = Some b \<Longrightarrow> bots st1 k = Some b"
    and "length (filter (\<lambda>b. key_of b = Some k) (connects es))
           = (if bots st k = None \<and> observes h cfg request k then 1 else 0)"
    and "bots st1 k \<noteq> None \<longleftrightarrow> bots st k \<noteq> None \<or> observes h cfg request k"
    and "observes h cfg request k \<Longrightarrow> (b', e) \<in> set (created_tasks es) \<Longrightarrow> bots st1 k = Some b'"
    and "observes h cfg request k \<Longrightarrow> bots st k \<noteq> None \<Longrightarrow> st1 = st \<and> connects es = []"
    by blast+
qed


text \<open>A sequence of requests.\<close>

lemma handle_all_append:
  "handle_all h cfg st (rs1 @ rs2)
     = (case handle_all h cfg st rs1 of
          (st1, e1) \<Rightarrow> (case handle_all h cfg st1 rs2 of (st2, e2) \<Rightarrow> (st2, e1 @ e2)))"
  by (induction rs1 arbitrary: st) (auto split: prod.splits)

lemma handle_all_run:
  assumes "handle_all h cfg st rs = (st', es)"
  shows "bots st k = Some b \<Longrightarrow> bots st' k = Some b"
    and "length (filter (\<lambda>b. key_of b = Some k) (connects es))
           = (if bots st k = None \<and> (\<exists>r \<in> set rs. observes h cfg r k) then 1 else 0)"
    and "bots st' k \<noteq> None \<longleftrightarrow> bots st k \<noteq> None \<or> (\<exists>r \<in> set rs. observes h cfg r k)"
proof -
  have "(\<forall>b. bots st k = Some b \<longrightarrow> bots st' k = Some b)
      \<and> length (filter (\<lambda>b. key_of b = Some k) (connects es))
           = (if bots st k = None \<and> (\<exists>r \<in> set rs. observes h cfg r k) then 1 else 0)
      \<and> (bots st' k \<noteq> None \<longleftrightarrow> bots st k \<noteq> None \<or> (\<exists>r \<in> set rs. observes h cfg r k))"
    using assms
  proof (induction rs arbitrary: st es)
    case Nil
    then show ?case by auto
  next
    case (Cons r rs)
    obtain out st1 e1 where step: "handle_http h cfg st r = (out, st1, e1)"
      by (cases "handle_http h cfg st r") auto
    obtain e2 where rest: "handle_all h cfg st1 rs = (st', e2)" and es: "es = e1 @ e2"
      using Cons.prems step by (auto split: prod.splits)
    note IH = Cons.IH [OF rest]
    note S = handle_http_step(1-3) [OF step, of k]
    from IH S show ?case
      unfolding es connects_append filter_append length_append
      by (cases "bots st k"; cases "observes h cfg r k"; cases "bots st1 k") auto
  qed
  then show "bots st k = Some b \<Longrightarrow> bots st' k = Some b"
    and "length (filter (\<lambda>b. key_of b = Some k) (connects es))
           = (if bots st k = None \<and> (\<exists>r \<in> set rs. observes h cfg r k) then 1 else 0)"
    and "bots st' k \<noteq> None \<longleftrightarrow> bots st k \<noteq> None \<or> (\<exists>r \<in> set rs. observes h cfg r k)"
    by blast+
qed

text \<open>
  C8. Over any sequence of requests handled from any state, and for any identity \<open>k\<close>:
  the number of bots connected for \<open>k\<close> is one when \<open>k\<close> was not registered before and
  some request of the sequence shows it, and zero otherwise; \<open>k\<close> is registered afterwards
  exactly when it was before or was shown; a bot registered under \<open>k\<close> is never replaced;
  and a request of the sequence that shows \<open>k\<close> hands its event to the bot that the
  registry holds under \<open>k\<close> at the end, without connecting a bot or changing the state when
  \<open>k\<close> was registered already.
\<close>

theorem registry_one_bot_per_identity:
  assumes "handle_all h cfg st rs = (st', es)"
  shows "length (filter (\<lambda>b. key_of b = Some k) (connects es))
           = (if bots st k = None \<and> (\<exists>r \<in> set rs. observes h cfg r k) then 1 else 0)
       \<and> (bots st' k \<noteq> None \<longleftrightarrow> bots st k \<noteq> None \<or> (\<exists>r \<in> set rs. observes h cfg r k))
       \<and> (\<forall>b. bots st k = Some b \<longrightarrow> bots st' k = Some b)
       \<and> (\<forall>rs1 r rs2 st1 out st2 es2.
             rs = rs1 @ r # rs2 \<and> observes h cfg r k
               \<and> fst (handle_all h cfg st rs1) = st1 \<and> handle_http h cfg st1 r = (out, st2, es2)
             \<longrightarrow> (\<forall>b e. (b, e) \<in> set (created_tasks es2) \<longrightarrow> bots st' k = Some b)
                 \<and> (bots st1 k \<noteq> None \<longrightarrow> st2 = st1 \<and> connects es2 = []))"
proof -
  have count: "length (filter (\<lambda>b. key_of b = Some k) (connects es))
           = (if bots st k = None \<and> (\<exists>r \<in> set rs. observes h cfg r k) then 1 else 0)"
    by (rule handle_all_run(2) [OF assms])
  have registered:
    "bots st' k \<noteq> None \<longleftrightarrow> bots st k \<noteq> None \<or> (\<exists>r \<in> set rs. observes h cfg r k)"
    by (rule handle_all_run(3) [OF assms])
  have kept: "\<forall>b. bots st k = Some b \<longrightarrow> bots st' k = Some b"
    using handle_all_run(1) [OF assms] by blast
  have reuse: "(\<forall>b e. (b, e) \<in> set (created_tasks es2) \<longrightarrow> bots st' k = Some b)
                 \<and> (bots st1 k \<noteq> None \<longrightarrow> st2 = st1 \<and> connects es2 = [])"
    if a: "rs = rs1 @ r # rs2 \<and> observes h cfg r k
               \<and> fst (handle_all h cfg st rs1) = st1 \<and> handle_http h cfg st1 r = (out, st2, es2)"
    for rs1 r rs2 st1 out st2 es2
  proof -
    from a have step: "handle_http h cfg st1 r = (out, st2, es2)" and obs: "observes h cfg r k"
      by simp_all
    obtain e1 where first: "handle_all h cfg st rs1 = (st1, e1)"
      using a by (cases "handle_all h cfg st rs1") auto
    obtain e3 where rest: "handle_all h cfg st2 rs2 = (st', e3)"
      using assms a first step by (auto simp: handle_all_append split: prod.splits)
    have "bots st' k = Some b" if "(b, e) \<in> set (created_tasks es2)" for b e
    proof -
      have "bots st2 k = Some b"
        using handle_http_step(4) [OF step obs that] .
      then show ?thesis
        by (rule handle_all_run(1) [OF rest])
    qed
    moreover have "st2 = st1 \<and> connects es2 = []" if "bots st1 k \<noteq> None"
      using handle_http_step(5) [OF step obs that] .
    ultimately show ?thesis by blast
  qed
  from count registered kept reuse show ?thesis by blast
qed

theorem registry_one_bot_per_identity_witness:
  "bots fresh_adapter (KStr ''B1'') = None
   \<and> observes (example_host ok_body) example_config
        (example_request good_sign (Some private_body)) (KStr ''B1'')
   \<and> length (filter (\<lambda>b. key_of b = Some (KStr ''B1''))
        (connects (snd (handle_all (example_host ok_body) example_config fresh_adapter
           example_requests)))) = 1
   \<and> bots (fst (handle_all (example_host ok_body) example_config fresh_adapter example_requests))
        (KStr ''B1'') = Some bot_B1
   \<and> map fst (created_tasks (snd (handle_all (example_host ok_body) example_config fresh_adapter
        example_requests))) = [bot_B1, bot_B2, bot_B1]"
proof -
  have fresh: "bots fresh_adapter (KStr ''B1'') = None"
    by (simp add: fresh_adapter_def)
  have obs: "observes (example_host ok_body) example_config
        (example_request good_sign (Some private_body)) (KStr ''B1'')"
    by (simp add: observes_def inbound_defs example_defs Let_def)
  then have seen: "\<exists>r \<in> set example_requests.
      observes (example_host ok_body) example_config r (KStr ''B1'')"
    by (simp add: example_requests_def)
  have run: "handle_all (example_host ok_body) example_config fresh_adapter example_requests
      = (fst (handle_all (example_host ok_body) example_config fresh_adapter example_requests),
         snd (handle_all (example_host ok_body) example_config fresh_adapter example_requests))"
    by simp
  from registry_one_bot_per_identity [OF run, of "KStr ''B1''"] fresh seen
  have "length (filter (\<lambda>b. key_of b = Some (KStr ''B1''))
        (connects (snd (handle_all (example_host ok_body) example_config fresh_adapter
           example_requests)))) = 1"
    by simp
  with fresh obs show ?thesis
    by (simp add: example_run)
qed

end
